theory Spec2Isabelle
  imports Main
begin

section \<open>Data model (src/context/TaskContext.tsx, src/types/index.ts)\<close>

text \<open>
  A JavaScript \<open>Date\<close> is its time value: the number of milliseconds since the epoch,
  an integer. Timestamps of the backend rows are ISO strings of such instants
  (\<open>toISOString\<close> and \<open>new Date(...)\<close> convert back and forth without loss), so rows and
  application objects carry the same integers.
\<close>

type_synonym instant = int

record Category =
  cat_id :: string
  cat_userId :: string
  cat_title :: string
  orderIndex :: int
  cat_createdAt :: instant

record Task =
  task_id :: string
  task_userId :: string
  categoryId :: string
  task_title :: string
  isCompleted :: bool
  isDaily :: bool
  lastCompletedDate :: "instant option"
  task_createdAt :: instant

section \<open>JavaScript numbers: the double arithmetic used by the statistics\<close>

text \<open>
  \<open>completed / total\<close> and \<open>\<dots> * 100\<close> are IEEE 754 binary64 operations: the exact
  result rounded to the nearest double, ties to the even mantissa. A non-negative
  double is written as a pair \<open>(m, e)\<close> standing for \<open>m * 2 ^ e\<close>, with \<open>m < 2 ^ 53\<close>
  (or \<open>m = 2 ^ 53\<close> after a carry). The operands here are list lengths (below
  \<open>2 ^ 32\<close>) and the constant 100, so neither subnormal numbers nor overflow occur and
  the exponent is left unbounded.
\<close>

type_synonym double = "nat \<times> int"

fun bit_length :: "nat \<Rightarrow> nat" where
  "bit_length n = (if n = 0 then 0 else Suc (bit_length (n div 2)))"

declare bit_length.simps [simp del]

definition ilog2 :: "nat \<Rightarrow> nat \<Rightarrow> int" where
  \<comment> \<open>\<open>\<lfloor>log\<^sub>2 (n / d)\<rfloor>\<close> for positive \<open>n\<close> and \<open>d\<close>\<close>
  "ilog2 n d =
     (let k = int (bit_length n) - int (bit_length d)
      in if (if 0 \<le> k then d * 2 ^ nat k \<le> n else d \<le> n * 2 ^ nat (- k)) then k else k - 1)"

definition round_half_even :: "nat \<Rightarrow> nat \<Rightarrow> nat" where
  \<comment> \<open>the integer nearest to \<open>n / d\<close>, a tie going to the even one\<close>
  "round_half_even n d =
     (let q = n div d; r = n mod d
      in if 2 * r < d then q else if d < 2 * r then q + 1 else if even q then q else q + 1)"

definition binary64 :: "nat \<Rightarrow> nat \<Rightarrow> double" where
  \<comment> \<open>the double nearest to the rational \<open>n / d\<close>: 53 significant bits\<close>
  "binary64 n d =
     (if n = 0 then (0, 0)
      else let e = ilog2 n d - 52
           in (if 0 \<le> e then round_half_even n (d * 2 ^ nat e)
               else round_half_even (n * 2 ^ nat (- e)) d, e))"

definition js_divide :: "nat \<Rightarrow> nat \<Rightarrow> double" where
  \<comment> \<open>\<open>a / b\<close> on two integer-valued numbers, \<open>b > 0\<close>\<close>
  "js_divide a b = binary64 a b"

definition js_times :: "double \<Rightarrow> nat \<Rightarrow> double" where
  \<comment> \<open>\<open>x * k\<close> for a double \<open>x\<close> and an integer-valued \<open>k\<close>\<close>
  "js_times x k =
     (case x of (m, e) \<Rightarrow>
        if 0 \<le> e then binary64 (m * k * 2 ^ nat e) 1 else binary64 (m * k) (2 ^ nat (- e)))"

definition Math_round :: "double \<Rightarrow> int" where
  \<comment> \<open>\<open>Math.round\<close>: the nearest integer, a tie going up; that is \<open>\<lfloor>x + 1/2\<rfloor>\<close>\<close>
  "Math_round x =
     (case x of (m, e) \<Rightarrow>
        if 0 \<le> e then int (m * 2 ^ nat e)
        else int ((2 * m + 2 ^ nat (- e)) div (2 * 2 ^ nat (- e))))"

section \<open>Stats Aggregator (src/app/(tabs)/analytics.tsx)\<close>

record DailyStats =
  total :: nat
  completed :: nat
  missed :: nat
  percentage :: int

record CategoryStats =
  cs_id :: string
  cs_title :: string
  cs_total :: nat
  cs_completed :: nat
  cs_percentage :: int

definition dailyStats :: "Task list \<Rightarrow> DailyStats" where
  "dailyStats tasks =
     (let total = length tasks;
          completed = length (filter isCompleted tasks);
          missed = total - completed;
          percentage = (if 0 < total then Math_round (js_times (js_divide completed total) 100) else 0)
      in \<lparr>total = total, completed = completed, missed = missed, percentage = percentage\<rparr>)"

definition categoryStats :: "Category list \<Rightarrow> Task list \<Rightarrow> CategoryStats list" where
  "categoryStats categories tasks =
     map (\<lambda>category.
            let categoryTasks = filter (\<lambda>t. categoryId t = cat_id category) tasks;
                completed = length (filter isCompleted categoryTasks);
                percentage = (if 0 < length categoryTasks
                              then Math_round (js_times (js_divide completed (length categoryTasks)) 100)
                              else 0)
            in \<lparr>cs_id = cat_id category, cs_title = cat_title category,
                cs_total = length categoryTasks, cs_completed = completed,
                cs_percentage = percentage\<rparr>)
         categories"

definition round_half_up :: "nat \<Rightarrow> nat \<Rightarrow> int" where
  \<comment> \<open>the specification's \<open>round(n / d)\<close> on exact rationals: \<open>\<lfloor>n / d + 1/2\<rfloor>\<close>\<close>
  "round_half_up n d = int ((2 * n + d) div (2 * d))"

section \<open>Calendar dates\<close>

text \<open>
  \<open>toDateString()\<close> renders the calendar date of an instant in the device's local
  timezone; two such strings are equal exactly when the local day numbers are.
  \<open>tz\<close> gives the offset of local time from UTC, in milliseconds, in force at an
  instant. \<open>toISOString().split('T')[0]\<close> is the calendar date in UTC.
\<close>

definition msPerDay :: int where
  "msPerDay = 86400000"

definition toDateString :: "(instant \<Rightarrow> int) \<Rightarrow> instant \<Rightarrow> int" where
  "toDateString tz d = (d + tz d) div msPerDay"

definition toISODate :: "instant \<Rightarrow> int" where
  "toISODate d = d div msPerDay"

section \<open>Remote Sync Adapter: the hosted row store\<close>

text \<open>
  The backend is an external service. It is modelled as the rows of its tables,
  the outcome of the calls still to come (\<open>True\<close>: the call fails with an error
  result and changes nothing; an exhausted list: every further call succeeds) and a
  count of the calls issued. The query builder never throws: a call yields either an
  error or its data, as the \<open>{ data, error }\<close> results in the source show.
\<close>

record AnalyticsHistory =
  ah_userId :: string
  ah_date :: int
  total_tasks :: nat
  completed_tasks :: nat
  completion_percentage :: int

record db =
  cat_rows :: "Category list"
  task_rows :: "Task list"
  history_rows :: "AnalyticsHistory list"

record backend =
  data :: db
  faults :: "bool list"
  requests :: nat

datatype error = NetworkOrBackendError

definition next_call_fails :: "backend \<Rightarrow> bool" where
  "next_call_fails be = (case faults be of [] \<Rightarrow> False | f # _ \<Rightarrow> f)"

definition remote_call :: "(db \<Rightarrow> 'a \<times> db) \<Rightarrow> backend \<Rightarrow> (error + 'a) \<times> backend" where
  "remote_call q be =
     (let be1 = be\<lparr>faults := tl (faults be), requests := Suc (requests be)\<rparr>
      in if next_call_fails be then (Inl NetworkOrBackendError, be1)
         else (case q (data be) of (a, d) \<Rightarrow> (Inr a, be1\<lparr>data := d\<rparr>)))"

text \<open>
  The server-side SQL functions \<open>reset_daily_tasks\<close> and \<open>save_daily_analytics\<close>
  belong to the database schema, which is not part of the sources: they are
  parameters, arbitrary transformations of the rows.
\<close>

record server =
  reset_daily_tasks :: "db \<Rightarrow> db"
  save_daily_analytics :: "string \<Rightarrow> db \<Rightarrow> db"

subsection \<open>The queries issued by the task context\<close>

definition select_categories :: "string \<Rightarrow> db \<Rightarrow> Category list \<times> db" where
  \<comment> \<open>\<open>from("categories").select("*").eq("user_id", uid).order("order_index")\<close>\<close>
  "select_categories uid d =
     (sort_key orderIndex (filter (\<lambda>c. cat_userId c = uid) (cat_rows d)), d)"

definition select_tasks :: "string \<Rightarrow> db \<Rightarrow> Task list \<times> db" where
  \<comment> \<open>\<open>from("tasks").select("*").eq("user_id", uid).order("created_at")\<close>\<close>
  "select_tasks uid d =
     (sort_key task_createdAt (filter (\<lambda>t. task_userId t = uid) (task_rows d)), d)"

definition reset_row :: "string \<Rightarrow> int \<Rightarrow> Task \<Rightarrow> Task" where
  \<comment> \<open>one row under \<open>update({is_completed: false}).eq("user_id", uid).eq("is_daily", true)
      .lt("last_completed_date", day)\<close>: the date \<open>day\<close> is read as its first instant in
      UTC, and a null date matches no comparison\<close>
  "reset_row uid day t =
     (if task_userId t = uid \<and> isDaily t \<and>
         (case lastCompletedDate t of None \<Rightarrow> False | Some l \<Rightarrow> l < day * msPerDay)
      then t\<lparr>isCompleted := False\<rparr> else t)"

definition update_daily_reset :: "string \<Rightarrow> int \<Rightarrow> db \<Rightarrow> unit \<times> db" where
  "update_daily_reset uid day d = ((), d\<lparr>task_rows := map (reset_row uid day) (task_rows d)\<rparr>)"

definition rpc_reset_daily_tasks :: "server \<Rightarrow> db \<Rightarrow> unit \<times> db" where
  "rpc_reset_daily_tasks srv d = ((), reset_daily_tasks srv d)"

definition rpc_save_daily_analytics :: "server \<Rightarrow> string \<Rightarrow> db \<Rightarrow> unit \<times> db" where
  "rpc_save_daily_analytics srv uid d = ((), save_daily_analytics srv uid d)"

definition insert_category :: "Category \<Rightarrow> db \<Rightarrow> Category \<times> db" where
  \<comment> \<open>\<open>insert({...}).select().single()\<close>: the stored row comes back\<close>
  "insert_category row d = (row, d\<lparr>cat_rows := cat_rows d @ [row]\<rparr>)"

definition insert_task :: "Task \<Rightarrow> db \<Rightarrow> Task \<times> db" where
  "insert_task row d = (row, d\<lparr>task_rows := task_rows d @ [row]\<rparr>)"

definition update_task_title :: "string \<Rightarrow> string \<Rightarrow> db \<Rightarrow> unit \<times> db" where
  \<comment> \<open>\<open>update({ title }).eq("id", taskId)\<close>\<close>
  "update_task_title taskId title d =
     ((), d\<lparr>task_rows := map (\<lambda>t. if task_id t = taskId then t\<lparr>task_title := title\<rparr> else t)
                              (task_rows d)\<rparr>)"

definition update_task_completion :: "string \<Rightarrow> bool \<Rightarrow> instant option \<Rightarrow> db \<Rightarrow> unit \<times> db" where
  \<comment> \<open>\<open>update({is_completed, last_completed_date}).eq("id", taskId)\<close>; an undefined
      \<open>last_completed_date\<close> is left out of the request and the column keeps its value\<close>
  "update_task_completion taskId c l d =
     ((), d\<lparr>task_rows :=
              map (\<lambda>t. if task_id t = taskId
                        then t\<lparr>isCompleted := c,
                               lastCompletedDate := (case l of None \<Rightarrow> lastCompletedDate t
                                                     | Some v \<Rightarrow> Some v)\<rparr>
                        else t)
                  (task_rows d)\<rparr>)"

definition delete_task :: "string \<Rightarrow> db \<Rightarrow> unit \<times> db" where
  "delete_task taskId d = ((), d\<lparr>task_rows := filter (\<lambda>t. task_id t \<noteq> taskId) (task_rows d)\<rparr>)"

definition delete_category :: "string \<Rightarrow> db \<Rightarrow> unit \<times> db" where
  \<comment> \<open>the tasks of the category go with it (\<open>CASCADE\<close>)\<close>
  "delete_category catId d =
     ((), d\<lparr>cat_rows := filter (\<lambda>c. cat_id c \<noteq> catId) (cat_rows d),
              task_rows := filter (\<lambda>t. categoryId t \<noteq> catId) (task_rows d)\<rparr>)"

definition update_order_index :: "string \<Rightarrow> int \<Rightarrow> db \<Rightarrow> unit \<times> db" where
  \<comment> \<open>\<open>update({ order_index: index }).eq("id", cat.id)\<close>\<close>
  "update_order_index catId i d =
     ((), d\<lparr>cat_rows := map (\<lambda>c. if cat_id c = catId then c\<lparr>orderIndex := i\<rparr> else c)
                             (cat_rows d)\<rparr>)"

section \<open>Task Store and its operations (TaskProvider, src/context/TaskContext.tsx)\<close>

record store =
  categories :: "Category list"
  tasks :: "Task list"
  loading :: bool
  userId :: "string option"

text \<open>
  An operation is an async function: it takes the provider's state and the backend and
  returns how its promise settles together with the state and the backend it leaves.
\<close>

datatype outcome = Resolved | Rejected error

definition truthy :: "string option \<Rightarrow> bool" where
  \<comment> \<open>\<open>null\<close>, \<open>undefined\<close> and the empty string are falsy\<close>
  "truthy u = (case u of None \<Rightarrow> False | Some s \<Rightarrow> s \<noteq> [])"

definition loadData :: "string option \<Rightarrow> store \<times> backend \<Rightarrow> outcome \<times> store \<times> backend" where
  "loadData uid w =
     (case w of (st, be) \<Rightarrow>
        (case (if truthy uid then uid else userId st) of
           None \<Rightarrow> (Resolved, st, be)
         | Some currentUserId \<Rightarrow>
             if currentUserId = [] then (Resolved, st, be)
             else
               (case remote_call (select_categories currentUserId) be of
                  (Inl categoriesError, be1) \<Rightarrow> (Resolved, st\<lparr>loading := False\<rparr>, be1)
                | (Inr categoriesData, be1) \<Rightarrow>
                    (case remote_call (select_tasks currentUserId) be1 of
                       (Inl tasksError, be2) \<Rightarrow> (Resolved, st\<lparr>loading := False\<rparr>, be2)
                     | (Inr tasksData, be2) \<Rightarrow>
                         (Resolved,
                          st\<lparr>categories := categoriesData, tasks := tasksData, loading := False\<rparr>,
                          be2)))))"

definition tasksToReset :: "(instant \<Rightarrow> int) \<Rightarrow> instant \<Rightarrow> Task list \<Rightarrow> Task list" where
  "tasksToReset tz now ts =
     (let today = toDateString tz now
      in filter (\<lambda>task. isDaily task \<and>
                  (case lastCompletedDate task of None \<Rightarrow> False
                   | Some l \<Rightarrow> toDateString tz l \<noteq> today)) ts)"

definition checkAndResetDailyTasks ::
  "server \<Rightarrow> (instant \<Rightarrow> int) \<Rightarrow> instant \<Rightarrow> store \<times> backend \<Rightarrow> outcome \<times> store \<times> backend" where
  "checkAndResetDailyTasks srv tz now w =
     (case w of (st, be) \<Rightarrow>
        if \<not> truthy (userId st) then (Resolved, st, be)
        else
          (case userId st of
             None \<Rightarrow> (Resolved, st, be)
           | Some uid \<Rightarrow>
               if tasksToReset tz now (tasks st) \<noteq> [] then
                 (case remote_call (update_daily_reset uid (toISODate now)) be of
                    (Inl e, be1) \<Rightarrow> (Resolved, st, be1)
                  | (Inr _, be1) \<Rightarrow>
                      (case loadData None (st, be1) of
                         (_, st2, be2) \<Rightarrow>
                           (Resolved, st2, snd (remote_call (rpc_reset_daily_tasks srv) be2))))
               else (Resolved, st, snd (remote_call (rpc_reset_daily_tasks srv) be))))"

definition saveDailyAnalytics :: "server \<Rightarrow> store \<times> backend \<Rightarrow> outcome \<times> store \<times> backend" where
  "saveDailyAnalytics srv w =
     (case w of (st, be) \<Rightarrow>
        (case userId st of
           None \<Rightarrow> (Resolved, st, be)
         | Some uid \<Rightarrow>
             if uid = [] then (Resolved, st, be)
             else (Resolved, st, snd (remote_call (rpc_save_daily_analytics srv uid) be))))"

text \<open>
  The identifier and the creation time of an inserted row are chosen by the database:
  \<open>new_id\<close> and \<open>created\<close> stand for them.
\<close>

definition addCategory ::
  "string \<Rightarrow> instant \<Rightarrow> string \<Rightarrow> store \<times> backend \<Rightarrow> outcome \<times> store \<times> backend" where
  "addCategory new_id created title w =
     (case w of (st, be) \<Rightarrow>
        (case userId st of
           None \<Rightarrow> (Resolved, st, be)
         | Some uid \<Rightarrow>
             if uid = [] then (Resolved, st, be)
             else
               (case remote_call
                       (insert_category \<lparr>cat_id = new_id, cat_userId = uid, cat_title = title,
                                         orderIndex = int (length (categories st)),
                                         cat_createdAt = created\<rparr>) be of
                  (Inl e, be1) \<Rightarrow> (Rejected e, st, be1)
                | (Inr newCategory, be1) \<Rightarrow>
                    (Resolved, st\<lparr>categories := categories st @ [newCategory]\<rparr>, be1))))"

definition addTask ::
  "string \<Rightarrow> instant \<Rightarrow> string \<Rightarrow> string \<Rightarrow> bool \<Rightarrow> store \<times> backend \<Rightarrow> outcome \<times> store \<times> backend" where
  "addTask new_id created catId title daily w =
     (case w of (st, be) \<Rightarrow>
        (case userId st of
           None \<Rightarrow> (Resolved, st, be)
         | Some uid \<Rightarrow>
             if uid = [] then (Resolved, st, be)
             else
               (case remote_call
                       (insert_task \<lparr>task_id = new_id, task_userId = uid, categoryId = catId,
                                     task_title = title, isCompleted = False, isDaily = daily,
                                     lastCompletedDate = None, task_createdAt = created\<rparr>) be of
                  (Inl e, be1) \<Rightarrow> (Rejected e, st, be1)
                | (Inr newTask, be1) \<Rightarrow> (Resolved, st\<lparr>tasks := tasks st @ [newTask]\<rparr>, be1))))"

definition updateTask :: "string \<Rightarrow> string \<Rightarrow> store \<times> backend \<Rightarrow> outcome \<times> store \<times> backend" where
  "updateTask taskId title w =
     (case w of (st, be) \<Rightarrow>
        if \<not> truthy (userId st) then (Resolved, st, be)
        else
          (case remote_call (update_task_title taskId title) be of
             (Inl e, be1) \<Rightarrow> (Rejected e, st, be1)
           | (Inr _, be1) \<Rightarrow>
               (Resolved,
                st\<lparr>tasks := map (\<lambda>t. if task_id t = taskId then t\<lparr>task_title := title\<rparr> else t)
                                  (tasks st)\<rparr>,
                be1)))"

definition toggleTask ::
  "server \<Rightarrow> instant \<Rightarrow> string \<Rightarrow> store \<times> backend \<Rightarrow> outcome \<times> store \<times> backend" where
  "toggleTask srv now taskId w =
     (case w of (st, be) \<Rightarrow>
        if \<not> truthy (userId st) then (Resolved, st, be)
        else
          (case find (\<lambda>t. task_id t = taskId) (tasks st) of
             None \<Rightarrow> (Resolved, st, be)
           | Some task \<Rightarrow>
               let newIsCompleted = \<not> isCompleted task
               in (case remote_call
                          (update_task_completion taskId newIsCompleted
                             (if newIsCompleted then Some now else lastCompletedDate task)) be of
                     (Inl e, be1) \<Rightarrow> (Rejected e, st, be1)
                   | (Inr _, be1) \<Rightarrow>
                       saveDailyAnalytics srv
                         (st\<lparr>tasks :=
                               map (\<lambda>t. if task_id t = taskId
                                         then t\<lparr>isCompleted := newIsCompleted,
                                                lastCompletedDate :=
                                                  (if newIsCompleted then Some now
                                                   else lastCompletedDate t)\<rparr>
                                         else t)
                                   (tasks st)\<rparr>,
                          be1))))"

definition deleteTask :: "server \<Rightarrow> string \<Rightarrow> store \<times> backend \<Rightarrow> outcome \<times> store \<times> backend" where
  "deleteTask srv taskId w =
     (case w of (st, be) \<Rightarrow>
        if \<not> truthy (userId st) then (Resolved, st, be)
        else
          (case remote_call (delete_task taskId) be of
             (Inl e, be1) \<Rightarrow> (Rejected e, st, be1)
           | (Inr _, be1) \<Rightarrow>
               saveDailyAnalytics srv
                 (st\<lparr>tasks := filter (\<lambda>t. task_id t \<noteq> taskId) (tasks st)\<rparr>, be1)))"

definition deleteCategory :: "server \<Rightarrow> string \<Rightarrow> store \<times> backend \<Rightarrow> outcome \<times> store \<times> backend" where
  "deleteCategory srv catId w =
     (case w of (st, be) \<Rightarrow>
        if \<not> truthy (userId st) then (Resolved, st, be)
        else
          (case remote_call (delete_category catId) be of
             (Inl e, be1) \<Rightarrow> (Rejected e, st, be1)
           | (Inr _, be1) \<Rightarrow>
               saveDailyAnalytics srv
                 (st\<lparr>categories := filter (\<lambda>c. cat_id c \<noteq> catId) (categories st),
                     tasks := filter (\<lambda>t. categoryId t \<noteq> catId) (tasks st)\<rparr>, be1)))"

definition reorderTasks :: "string \<Rightarrow> Task list \<Rightarrow> store \<times> backend \<Rightarrow> outcome \<times> store \<times> backend" where
  "reorderTasks catId reorderedTasks w =
     (case w of (st, be) \<Rightarrow>
        (Resolved,
         st\<lparr>tasks := map (\<lambda>task. case find (\<lambda>t. task_id t = task_id task) reorderedTasks of
                                    None \<Rightarrow> task | Some reordered \<Rightarrow> reordered)
                           (tasks st)\<rparr>,
         be))"

text \<open>
  \<open>reorderCategories\<close> builds one update per category, numbered by position, and awaits
  them together; their results are not looked at.
\<close>

fun send_order_updates :: "Category list \<Rightarrow> nat \<Rightarrow> backend \<Rightarrow> backend" where
  "send_order_updates [] index be = be"
| "send_order_updates (cat # cats) index be =
     send_order_updates cats (Suc index)
       (snd (remote_call (update_order_index (cat_id cat) (int index)) be))"

definition reorderCategories :: "Category list \<Rightarrow> store \<times> backend \<Rightarrow> outcome \<times> store \<times> backend" where
  "reorderCategories reorderedCategories w =
     (case w of (st, be) \<Rightarrow>
        if \<not> truthy (userId st) then (Resolved, st, be)
        else (Resolved, st\<lparr>categories := reorderedCategories\<rparr>,
              send_order_updates reorderedCategories 0 be))"

definition syncData :: "store \<times> backend \<Rightarrow> outcome \<times> store \<times> backend" where
  "syncData w = loadData None w"

section \<open>The earlier provider on device storage (second half of TaskContext.tsx)\<close>

text \<open>
  The file also carries the provider that preceded the hosted backend. It keeps its
  data in \<open>AsyncStorage\<close> and resets daily tasks once per local date, remembered under
  the key \<open>lastResetDate\<close>. A storage call can fail like a remote one; the check
  catches and logs every failure.
\<close>

record device =
  device_tasks :: "Task list"
  stored_tasks :: "Task list option"
  lastResetDate :: "int option"
  storage_faults :: "bool list"

definition storage_call_fails :: "device \<Rightarrow> bool" where
  "storage_call_fails dv = (case storage_faults dv of [] \<Rightarrow> False | f # _ \<Rightarrow> f)"

definition checkDailyReset :: "(instant \<Rightarrow> int) \<Rightarrow> instant \<Rightarrow> device \<Rightarrow> device" where
  "checkDailyReset tz now dv =
     (let dv1 = dv\<lparr>storage_faults := tl (storage_faults dv)\<rparr>
      in if storage_call_fails dv then dv1
         else
           let today = toDateString tz now
           in if lastResetDate dv1 \<noteq> Some today then
                let resetTasks =
                      map (\<lambda>task. if isDaily task
                                   then task\<lparr>isCompleted := False, lastCompletedDate := Some now\<rparr>
                                   else task)
                          (device_tasks dv1);
                    dv2 = dv1\<lparr>device_tasks := resetTasks\<rparr>;
                    dv3 = (if storage_call_fails dv2 then dv2
                           else dv2\<lparr>stored_tasks := Some resetTasks\<rparr>)
                            \<lparr>storage_faults := tl (storage_faults dv2)\<rparr>
                in (if storage_call_fails dv3 then dv3 else dv3\<lparr>lastResetDate := Some today\<rparr>)
                     \<lparr>storage_faults := tl (storage_faults dv3)\<rparr>
              else dv1)"

section \<open>Concrete scenarios\<close>

definition example_task :: "string \<Rightarrow> bool \<Rightarrow> bool \<Rightarrow> instant option \<Rightarrow> instant \<Rightarrow> Task" where
  \<comment> \<open>a task of user \<open>u1\<close> in category \<open>c1\<close>\<close>
  "example_task i c daily l created =
     \<lparr>task_id = i, task_userId = ''u1'', categoryId = ''c1'', task_title = ''task'',
      isCompleted = c, isDaily = daily, lastCompletedDate = l, task_createdAt = created\<rparr>"

definition example_category :: "string \<Rightarrow> int \<Rightarrow> Category" where
  "example_category i k =
     \<lparr>cat_id = i, cat_userId = ''u1'', cat_title = ''category'', orderIndex = k,
      cat_createdAt = 0\<rparr>"

definition mirrored :: "Category list \<Rightarrow> Task list \<Rightarrow> bool list \<Rightarrow> store \<times> backend" where
  \<comment> \<open>user \<open>u1\<close> signed in, the store holding exactly the rows of the backend\<close>
  "mirrored cs ts fs =
     (\<lparr>categories = cs, tasks = ts, loading = False, userId = Some ''u1''\<rparr>,
      \<lparr>data = \<lparr>cat_rows = cs, task_rows = ts, history_rows = []\<rparr>, faults = fs, requests = 0\<rparr>)"

definition idle_server :: server where
  \<comment> \<open>server-side functions that leave the tables as they are\<close>
  "idle_server = \<lparr>reset_daily_tasks = (\<lambda>d. d), save_daily_analytics = (\<lambda>u d. d)\<rparr>"

definition hours :: "int \<Rightarrow> int" where
  "hours h = h * 3600000"

definition at_day :: "int \<Rightarrow> int \<Rightarrow> instant" where
  \<comment> \<open>the instant \<open>ms\<close> milliseconds into UTC day number \<open>day\<close>\<close>
  "at_day day ms = day * 86400000 + ms"

definition zone_utc :: "instant \<Rightarrow> int" where
  "zone_utc = (\<lambda>_. 0)"

definition zone_west :: "instant \<Rightarrow> int" where
  \<comment> \<open>local time seven hours behind UTC\<close>
  "zone_west = (\<lambda>_. - hours 7)"

definition zone_east :: "instant \<Rightarrow> int" where
  \<comment> \<open>local time five hours ahead of UTC\<close>
  "zone_east = (\<lambda>_. hours 5)"

definition evening_task :: Task where
  \<comment> \<open>daily, completed at 01:00 UTC of day 20000: in \<open>zone_west\<close> that is 18:00 of the
      day before\<close>
  "evening_task = example_task ''a'' True True (Some (at_day 20000 (hours 1))) 1"

definition night_task :: Task where
  \<comment> \<open>daily, completed at 20:00 UTC of day 19999: in \<open>zone_east\<close> that is 01:00 of day
      20000\<close>
  "night_task = example_task ''b'' True True (Some (at_day 19999 (hours 20))) 2"

definition pending_task :: Task where
  \<comment> \<open>daily, not completed, last completed ten days earlier\<close>
  "pending_task = example_task ''a'' False True (Some (at_day 19990 0)) 1"

definition old_task :: Task where
  \<comment> \<open>daily, completed ten days earlier\<close>
  "old_task = example_task ''b'' True True (Some (at_day 19990 0)) 2"

definition undated_task :: Task where
  \<comment> \<open>daily, completed, without a completion date\<close>
  "undated_task = example_task ''a'' True True None 1"

definition open_task :: Task where
  "open_task = example_task ''a'' False True None 0"

definition signed_out :: "store \<times> backend" where
  \<comment> \<open>nobody signed in; the backend holds rows and would fail the next call\<close>
  "signed_out =
     (\<lparr>categories = [example_category ''c1'' 0], tasks = [example_task ''a'' True True None 0],
       loading = False, userId = None\<rparr>,
      \<lparr>data = \<lparr>cat_rows = [example_category ''c1'' 0],
                task_rows = [example_task ''a'' True True None 0], history_rows = []\<rparr>,
       faults = [True], requests = 0\<rparr>)"

section \<open>Auxiliary functions for the proofs\<close>

fun renumber :: "Category list \<Rightarrow> nat \<Rightarrow> Category list \<Rightarrow> Category list" where
  \<comment> \<open>the category rows after the updates of \<open>send_order_updates\<close>, all successful\<close>
  "renumber [] index rows = rows"
| "renumber (cat # cats) index rows =
     renumber cats (Suc index)
       (map (\<lambda>c. if cat_id c = cat_id cat then c\<lparr>orderIndex := int index\<rparr> else c) rows)"

definition stored_index :: "db \<Rightarrow> string \<Rightarrow> int option" where
  \<comment> \<open>the order index the backend holds for a category id\<close>
  "stored_index d i = map_option orderIndex (find (\<lambda>c. cat_id c = i) (cat_rows d))"

section \<open>Evaluating the double arithmetic\<close>

lemma bit_length_zero: "bit_length 0 = 0"
  by (simp add: bit_length.simps)

lemma bit_length_one: "bit_length 1 = 1"
  by (simp add: bit_length.simps)

lemma bit_length_Suc_0: "bit_length (Suc 0) = 1"
  by (simp add: bit_length.simps)

lemma bit_length_Bit0: "bit_length (numeral (Num.Bit0 n)) = Suc (bit_length (numeral n))"
  by (subst bit_length.simps) simp

lemma bit_length_Bit1: "bit_length (numeral (Num.Bit1 n)) = Suc (bit_length (numeral n))"
  by (subst bit_length.simps) simp

lemmas bit_length_numeral =
  bit_length_zero bit_length_one bit_length_Suc_0 bit_length_Bit0 bit_length_Bit1

lemmas double_defs =
  js_divide_def js_times_def binary64_def ilog2_def round_half_even_def Math_round_def Let_def

text \<open>
  Two well-known doubles as a check of the model: \<open>1 / 3\<close> is \<open>0x3FD5555555555555\<close> and
  \<open>1 / 10\<close> is \<open>0x3FB999999999999A\<close>.
\<close>

lemma js_divide_1_3: "js_divide 1 3 = (0x15555555555555, - 54)"
  by (simp add: double_defs bit_length_numeral)

lemma js_divide_1_10: "js_divide 1 10 = (0x1999999999999A, - 56)"
  by (simp add: double_defs bit_length_numeral)

lemma js_divide_23_40: "js_divide 23 40 = (5179139571476070, - 53)"
  by (simp add: double_defs bit_length_numeral)

lemma js_times_23_40: "js_times (js_divide 23 40) 100 = (8092405580431359, - 47)"
  by (simp add: js_divide_23_40) (simp add: double_defs bit_length_numeral)

lemma js_percentage_2_of_3: "Math_round (js_times (js_divide 2 3) 100) = 67"
  by (simp add: double_defs bit_length_numeral)

lemma js_percentage_3_of_3: "Math_round (js_times (js_divide 3 3) 100) = 100"
  by (simp add: double_defs bit_length_numeral)

section \<open>Stats Aggregator: properties\<close>

lemma dailyStats_total: "total (dailyStats ts) = length ts"
  by (simp add: dailyStats_def Let_def)

lemma dailyStats_completed_plus_missed:
  "completed (dailyStats ts) + missed (dailyStats ts) = total (dailyStats ts)"
proof -
  have "length (filter isCompleted ts) \<le> length ts"
    by (rule length_filter_le)
  then show ?thesis
    by (simp add: dailyStats_def Let_def)
qed

lemma dailyStats_no_tasks: "percentage (dailyStats []) = 0"
  by (simp add: dailyStats_def)

text \<open>
  C5. The claim: for every task list, completed + missed = total, the percentage is
  \<open>round(100 * completed / total)\<close> with round-half-up, and 0 when there are no tasks.
  The sum and the empty case hold (lemmas above). The rounding does not: the source
  computes \<open>Math.round((completed / total) * 100)\<close> in double arithmetic, and with 23 of
  40 tasks completed the quotient 0.575 is not a double, the product comes out as
  57.49999999999999 and is rounded to 57, where the exact value 57.5 rounds up to 58.
\<close>

theorem dailyStats_23_of_40:
  "total (dailyStats (replicate 23 (example_task ''a'' True False None 0) @
                      replicate 17 (example_task ''b'' False False None 0))) = 40 \<and>
   completed (dailyStats (replicate 23 (example_task ''a'' True False None 0) @
                          replicate 17 (example_task ''b'' False False None 0))) = 23 \<and>
   percentage (dailyStats (replicate 23 (example_task ''a'' True False None 0) @
                           replicate 17 (example_task ''b'' False False None 0))) = 57 \<and>
   round_half_up (100 * 23) 40 = 58"
  by (simp add: dailyStats_def example_task_def js_times_23_40 Math_round_def round_half_up_def)

text \<open>
  C6. \<open>categoryStats\<close> has exactly one entry per category, in the order of the category
  list, and a category without tasks gets total 0 and percentage 0: the division is
  guarded, so no \<open>0 / 0\<close> is ever computed.
\<close>

theorem categoryStats_one_entry_per_category:
  "length (categoryStats cats ts) = length cats \<and>
   map cs_id (categoryStats cats ts) = map cat_id cats \<and>
   (\<forall>i < length cats.
      filter (\<lambda>t. categoryId t = cat_id (cats ! i)) ts = [] \<longrightarrow>
        cs_total (categoryStats cats ts ! i) = 0 \<and> cs_percentage (categoryStats cats ts ! i) = 0)"
  by (simp add: categoryStats_def Let_def comp_def)

theorem categoryStats_one_entry_per_category_witness:
  "map cs_id (categoryStats [example_category ''c1'' 0, example_category ''c2'' 1]
                            [example_task ''a'' True False None 0]) = [''c1'', ''c2''] \<and>
   (1::nat) < length [example_category ''c1'' 0, example_category ''c2'' 1] \<and>
   filter (\<lambda>t. categoryId t = cat_id ([example_category ''c1'' 0, example_category ''c2'' 1] ! 1))
          [example_task ''a'' True False None 0] = [] \<and>
   cs_percentage (categoryStats [example_category ''c1'' 0, example_category ''c2'' 1]
                                [example_task ''a'' True False None 0] ! 1) = 0"
  using categoryStats_one_entry_per_category
          [of "[example_category ''c1'' 0, example_category ''c2'' 1]"
              "[example_task ''a'' True False None 0]"]
  by (simp add: example_category_def example_task_def)

section \<open>Remote calls\<close>

lemma remote_call_fail:
  "next_call_fails be \<Longrightarrow>
   remote_call q be =
     (Inl NetworkOrBackendError, be\<lparr>faults := tl (faults be), requests := Suc (requests be)\<rparr>)"
  by (simp add: remote_call_def)

lemma remote_call_ok:
  "\<not> next_call_fails be \<Longrightarrow>
   remote_call q be =
     (Inr (fst (q (data be))),
      be\<lparr>faults := tl (faults be), requests := Suc (requests be), data := snd (q (data be))\<rparr>)"
  by (simp add: remote_call_def split: prod.splits)

lemma remote_call_cases:
  obtains (fail) "next_call_fails be"
      "remote_call q be =
         (Inl NetworkOrBackendError, be\<lparr>faults := tl (faults be), requests := Suc (requests be)\<rparr>)"
    | (ok) "\<not> next_call_fails be" "remote_call q be =
     (Inr (fst (q (data be))),
      be\<lparr>faults := tl (faults be), requests := Suc (requests be), data := snd (q (data be))\<rparr>)"
  using remote_call_fail [of be q] remote_call_ok [of be q] by blast

lemma no_fault_next: "True \<notin> set (faults be) \<Longrightarrow> \<not> next_call_fails be"
  by (cases "faults be") (auto simp add: next_call_fails_def)

lemma no_fault_tl: "True \<notin> set fs \<Longrightarrow> True \<notin> set (tl fs)"
  by (cases fs) auto

lemma not_truthy_None: "\<not> truthy None"
  by (simp add: truthy_def)

lemma saveDailyAnalytics_resolves:
  "fst (saveDailyAnalytics srv (st, be)) = Resolved \<and>
   fst (snd (saveDailyAnalytics srv (st, be))) = st"
  by (simp add: saveDailyAnalytics_def split: option.splits)

lemmas scenario_defs =
  mirrored_def example_task_def example_category_def idle_server_def at_day_def hours_def
  truthy_def next_call_fails_def zone_utc_def zone_west_def zone_east_def evening_task_def
  night_task_def pending_task_def old_task_def undated_task_def open_task_def

lemmas rollover_defs =
  checkAndResetDailyTasks_def tasksToReset_def toDateString_def toISODate_def msPerDay_def
  remote_call_def loadData_def select_categories_def select_tasks_def update_daily_reset_def
  reset_row_def rpc_reset_daily_tasks_def Let_def

section \<open>Rollover Engine: what one check does to the store\<close>

lemma insort_key_map_commute:
  assumes "\<And>y. f (g y) = f y"
  shows "insort_key f (g x) (map g xs) = map g (insort_key f x xs)"
  by (induction xs) (simp_all add: assms)

lemma sort_key_map_commute:
  assumes "\<And>y. f (g y) = f y"
  shows "sort_key f (map g xs) = map g (sort_key f xs)"
  by (induction xs) (simp_all add: insort_key_map_commute [of f g] assms)

lemma reset_row_userId [simp]: "task_userId (reset_row u d t) = task_userId t"
  by (simp add: reset_row_def)

lemma reset_row_createdAt [simp]: "task_createdAt (reset_row u d t) = task_createdAt t"
  by (simp add: reset_row_def)

lemma reset_row_undated: "lastCompletedDate t = None \<Longrightarrow> reset_row u d t = t"
  by (simp add: reset_row_def)

lemma reset_row_non_daily: "\<not> isDaily t \<Longrightarrow> reset_row u d t = t"
  by (simp add: reset_row_def)

lemma reset_row_idem: "reset_row u d (reset_row u d t) = reset_row u d t"
  by (simp add: reset_row_def)

lemma tasksToReset_dated:
  "t \<in> set (tasksToReset tz now ts) \<Longrightarrow> lastCompletedDate t \<noteq> None"
  by (auto simp add: tasksToReset_def Let_def split: option.splits)

lemma tasksToReset_same_day:
  "toDateString tz now2 = toDateString tz now1 \<Longrightarrow>
   tasksToReset tz now2 ts = tasksToReset tz now1 ts"
  by (simp add: tasksToReset_def)

lemma select_tasks_userId:
  "t \<in> set (fst (select_tasks u d)) \<Longrightarrow> task_userId t = u"
  by (simp add: select_tasks_def)

lemma select_tasks_after_reset:
  "fst (select_tasks u (snd (update_daily_reset u day d))) =
   map (reset_row u day) (fst (select_tasks u d))"
  by (simp add: select_tasks_def update_daily_reset_def filter_map comp_def sort_key_map_commute)

lemma loadData_tasks:
  "tasks (fst (snd (loadData None (st, be)))) = tasks st \<or>
   (\<exists>u. userId st = Some u \<and>
        tasks (fst (snd (loadData None (st, be)))) = fst (select_tasks u (data be)))"
proof (cases "userId st")
  case None
  then show ?thesis by (simp add: loadData_def truthy_def)
next
  case (Some u)
  show ?thesis
  proof (cases "u = []")
    case True
    then show ?thesis using Some by (simp add: loadData_def truthy_def)
  next
    case False
    show ?thesis
    proof (cases rule: remote_call_cases [of be "select_categories u"])
      case fail
      then show ?thesis using Some False by (simp add: loadData_def truthy_def)
    next
      case ok
      let ?be1 = "be\<lparr>faults := tl (faults be), requests := Suc (requests be),
               data := snd (select_categories u (data be))\<rparr>"
      have d1: "data ?be1 = data be" by (simp add: select_categories_def)
      show ?thesis
      proof (cases rule: remote_call_cases [of ?be1 "select_tasks u"])
        case fail
        then show ?thesis using Some False ok by (simp add: loadData_def truthy_def)
      next
        case ok2: ok
        then show ?thesis using Some False ok d1 by (simp add: loadData_def truthy_def)
      qed
    qed
  qed
qed

text \<open>
  Whatever the backend answers: when the store holds the user's rows as the backend has
  them, one check either leaves the tasks alone or replaces them by the rows after the
  remote reset.
\<close>

lemma rollover_tasks:
  assumes "userId st = Some u" and "tasks st = fst (select_tasks u (data be))"
  shows "tasks (fst (snd (checkAndResetDailyTasks srv tz now (st, be)))) = tasks st \<or>
         tasks (fst (snd (checkAndResetDailyTasks srv tz now (st, be)))) =
           map (reset_row u (toISODate now)) (tasks st)"
proof (cases "truthy (userId st) \<and> tasksToReset tz now (tasks st) \<noteq> []")
  case False
  then show ?thesis using assms by (auto simp add: checkAndResetDailyTasks_def)
next
  case True
  show ?thesis
  proof (cases rule: remote_call_cases [of be "update_daily_reset u (toISODate now)"])
    case fail
    then show ?thesis using assms True by (simp add: checkAndResetDailyTasks_def)
  next
    case ok
    let ?be1 = "be\<lparr>faults := tl (faults be), requests := Suc (requests be),
               data := snd (update_daily_reset u (toISODate now) (data be))\<rparr>"
    have "tasks (fst (snd (checkAndResetDailyTasks srv tz now (st, be)))) =
          tasks (fst (snd (loadData None (st, ?be1))))"
      using assms True ok by (simp add: checkAndResetDailyTasks_def split: prod.splits)
    moreover have "fst (select_tasks u (data ?be1)) = map (reset_row u (toISODate now)) (tasks st)"
      using assms by (simp add: select_tasks_after_reset)
    ultimately show ?thesis using loadData_tasks [of st ?be1] assms by auto
  qed
qed

lemma loadData_success:
  assumes "userId st = Some u" and "u \<noteq> []" and "True \<notin> set (faults be)"
  shows "loadData None (st, be) =
     (Resolved,
      st\<lparr>categories := fst (select_categories u (data be)),
         tasks := fst (select_tasks u (data be)), loading := False\<rparr>,
      be\<lparr>faults := tl (tl (faults be)), requests := Suc (Suc (requests be))\<rparr>)"
proof -
  let ?be1 = "be\<lparr>faults := tl (faults be), requests := Suc (requests be),
                 data := snd (select_categories u (data be))\<rparr>"
  have 1: "remote_call (select_categories u) be = (Inr (fst (select_categories u (data be))), ?be1)"
    using assms(3) by (simp add: remote_call_ok no_fault_next)
  have "\<not> next_call_fails ?be1"
    using assms(3) by (simp add: no_fault_next no_fault_tl)
  then have 2: "remote_call (select_tasks u) ?be1 =
      (Inr (fst (select_tasks u (data ?be1))),
       ?be1\<lparr>faults := tl (faults ?be1), requests := Suc (requests ?be1),
            data := snd (select_tasks u (data ?be1))\<rparr>)"
    by (rule remote_call_ok)
  show ?thesis
    using assms(1,2)
    by (simp add: loadData_def not_truthy_None 1 2) (simp add: select_categories_def select_tasks_def)
qed

lemma rollover_success:
  assumes "userId st = Some u" and "u \<noteq> []" and "True \<notin> set (faults be)"
    and "tasksToReset tz now (tasks st) \<noteq> []"
  shows "checkAndResetDailyTasks srv tz now (st, be) =
     (Resolved,
      st\<lparr>categories := fst (select_categories u (data be)),
         tasks := map (reset_row u (toISODate now)) (fst (select_tasks u (data be))),
         loading := False\<rparr>,
      be\<lparr>faults := tl (tl (tl (tl (faults be)))), requests := requests be + 4,
         data := reset_daily_tasks srv (snd (update_daily_reset u (toISODate now) (data be)))\<rparr>)"
proof -
  let ?d = "snd (update_daily_reset u (toISODate now) (data be))"
  let ?be1 = "be\<lparr>faults := tl (faults be), requests := Suc (requests be), data := ?d\<rparr>"
  have 1: "remote_call (update_daily_reset u (toISODate now)) be = (Inr (), ?be1)"
    using assms(3) by (simp add: remote_call_ok no_fault_next)
  have nf1: "True \<notin> set (faults ?be1)"
    using assms(3) by (simp add: no_fault_tl)
  let ?st2 = "st\<lparr>categories := fst (select_categories u (data ?be1)),
         tasks := fst (select_tasks u (data ?be1)), loading := False\<rparr>"
  let ?be2 = "?be1\<lparr>faults := tl (tl (faults ?be1)), requests := Suc (Suc (requests ?be1))\<rparr>"
  have 2: "loadData None (st, ?be1) = (Resolved, ?st2, ?be2)"
    using assms(1,2) nf1 by (rule loadData_success)
  have cats: "fst (select_categories u ?d) = fst (select_categories u (data be))"
    by (simp add: select_categories_def update_daily_reset_def)
  show ?thesis
    using assms
    by (simp add: checkAndResetDailyTasks_def truthy_def 1 2 remote_call_ok no_fault_next
        no_fault_tl rpc_reset_daily_tasks_def select_tasks_after_reset cats)
qed

lemma rollover_idle:
  assumes "userId st = Some u" and "u \<noteq> []" and "True \<notin> set (faults be)"
    and "tasksToReset tz now (tasks st) = []"
  shows "checkAndResetDailyTasks srv tz now (st, be) =
     (Resolved, st,
      be\<lparr>faults := tl (faults be), requests := Suc (requests be),
         data := reset_daily_tasks srv (data be)\<rparr>)"
  using assms
  by (simp add: checkAndResetDailyTasks_def truthy_def remote_call_ok no_fault_next
      rpc_reset_daily_tasks_def)

text \<open>
  Where local time is UTC the two date tests of the check agree, and a completed daily
  task last completed on an earlier date is reset by one check whose calls succeed.
\<close>

lemma before_utc_midnight:
  assumes "toDateString (\<lambda>_. 0) l < toDateString (\<lambda>_. 0) now"
  shows "l < toISODate now * msPerDay"
proof -
  from assms have "l div 86400000 < now div 86400000"
    by (simp add: toDateString_def msPerDay_def)
  then have "l div 86400000 + 1 \<le> now div 86400000"
    by simp
  then have "(l div 86400000 + 1) * 86400000 \<le> (now div 86400000) * 86400000"
    by simp
  moreover have "l < (l div 86400000 + 1) * 86400000"
    by (simp add: algebra_simps)
  ultimately show ?thesis
    by (simp add: toISODate_def msPerDay_def)
qed

lemma rollover_resets_stale_when_local_is_utc:
  assumes "userId st = Some u" and "u \<noteq> []" and "tasks st = fst (select_tasks u (data be))"
    and "True \<notin> set (faults be)"
    and "i < length (tasks st)" and "isDaily (tasks st ! i)"
    and "lastCompletedDate (tasks st ! i) = Some l"
    and "toDateString (\<lambda>_. 0) l < toDateString (\<lambda>_. 0) now"
  shows "\<not> isCompleted (tasks (fst (snd (checkAndResetDailyTasks srv (\<lambda>_. 0) now (st, be)))) ! i)"
proof -
  have mem: "tasks st ! i \<in> set (tasks st)"
    using assms(5) by simp
  then have "tasks st ! i \<in> set (tasksToReset (\<lambda>_. 0) now (tasks st))"
    using assms(6,7,8) by (simp add: tasksToReset_def Let_def)
  then have ne: "tasksToReset (\<lambda>_. 0) now (tasks st) \<noteq> []"
    by auto
  have uid: "task_userId (tasks st ! i) = u"
    using mem assms(3) select_tasks_userId by metis
  have "l < toISODate now * msPerDay"
    using assms(8) by (rule before_utc_midnight)
  then have "\<not> isCompleted (reset_row u (toISODate now) (tasks st ! i))"
    using uid assms(6,7) by (simp add: reset_row_def)
  then show ?thesis
    using assms(3,5) by (simp add: rollover_success [OF assms(1,2,4) ne])
qed

text \<open>
  Tasks that are not daily are never touched by a check, in any timezone and whatever
  the backend answers.
\<close>

lemma rollover_keeps_non_daily:
  assumes "userId st = Some u" and "tasks st = fst (select_tasks u (data be))"
    and "i < length (tasks st)" and "\<not> isDaily (tasks st ! i)"
  shows "tasks (fst (snd (checkAndResetDailyTasks srv tz now (st, be)))) ! i = tasks st ! i"
  using rollover_tasks [OF assms(1,2), of srv tz now] assms(3,4)
  by (auto simp add: reset_row_non_daily)

text \<open>
  Two checks in a row that see the same local date and the same UTC date, with every
  call succeeding and a server-side reset that changes nothing: the second leaves the
  categories and tasks of the first.
\<close>

lemma second_rollover_same_utc_day:
  assumes "userId st = Some u" and "u \<noteq> []" and "tasks st = fst (select_tasks u (data be))"
    and "True \<notin> set (faults be)"
    and "reset_daily_tasks srv = (\<lambda>d. d)"
    and "toDateString tz now2 = toDateString tz now1"
    and "toISODate now2 = toISODate now1"
  shows "tasks (fst (snd (checkAndResetDailyTasks srv tz now2
                            (snd (checkAndResetDailyTasks srv tz now1 (st, be)))))) =
         tasks (fst (snd (checkAndResetDailyTasks srv tz now1 (st, be)))) \<and>
         categories (fst (snd (checkAndResetDailyTasks srv tz now2
                            (snd (checkAndResetDailyTasks srv tz now1 (st, be)))))) =
         categories (fst (snd (checkAndResetDailyTasks srv tz now1 (st, be))))"
proof (cases "tasksToReset tz now1 (tasks st) = []")
  case True
  let ?be1 = "be\<lparr>faults := tl (faults be), requests := Suc (requests be),
                 data := reset_daily_tasks srv (data be)\<rparr>"
  have 1: "checkAndResetDailyTasks srv tz now1 (st, be) = (Resolved, st, ?be1)"
    using assms(1,2,4) True by (rule rollover_idle)
  have nf: "True \<notin> set (faults ?be1)"
    using assms(4) by (simp add: no_fault_tl)
  have "tasksToReset tz now2 (tasks st) = []"
    using True tasksToReset_same_day [OF assms(6)] by simp
  from rollover_idle [OF assms(1,2) nf this] show ?thesis
    by (simp only: 1 snd_conv fst_conv)
next
  case False
  let ?r = "reset_row u (toISODate now1)"
  let ?d1 = "snd (update_daily_reset u (toISODate now1) (data be))"
  let ?st1 = "st\<lparr>categories := fst (select_categories u (data be)),
                 tasks := map ?r (fst (select_tasks u (data be))), loading := False\<rparr>"
  let ?be1 = "be\<lparr>faults := tl (tl (tl (tl (faults be)))), requests := requests be + 4,
                 data := reset_daily_tasks srv ?d1\<rparr>"
  have 1: "checkAndResetDailyTasks srv tz now1 (st, be) = (Resolved, ?st1, ?be1)"
    using assms(1,2,4) False by (rule rollover_success)
  have u1: "userId ?st1 = Some u"
    using assms(1) by simp
  have nf: "True \<notin> set (faults ?be1)"
    using assms(4) by (simp add: no_fault_tl)
  have d1: "data ?be1 = ?d1"
    using assms(5) by simp
  show ?thesis
  proof (cases "tasksToReset tz now2 (tasks ?st1) = []")
    case True
    from rollover_idle [OF u1 assms(2) nf this] show ?thesis
      by (simp only: 1 snd_conv fst_conv)
  next
    case ne: False
    have "fst (select_tasks u ?d1) = map ?r (fst (select_tasks u (data be)))"
      by (rule select_tasks_after_reset)
    moreover have "fst (select_categories u ?d1) = fst (select_categories u (data be))"
      by (simp add: select_categories_def update_daily_reset_def)
    ultimately show ?thesis
      using assms(7) rollover_success [OF u1 assms(2) nf ne, of srv]
      by (simp only: 1 snd_conv fst_conv d1) (simp add: reset_row_idem)
  qed
qed

text \<open>
  The specification's example, for a device on UTC: three completed tasks, a daily one
  completed yesterday, a daily one completed today and one that is not daily, give 100
  percent before the check and 2 of 3, 67 percent, after it.
\<close>

lemma rollover_example_of_three_tasks:
  "percentage (dailyStats [example_task ''a'' True True (Some (at_day 19999 (hours 9))) 1,
                           example_task ''b'' True True (Some (at_day 20000 (hours 9))) 2,
                           example_task ''c'' True False (Some (at_day 19999 (hours 9))) 3]) = 100 \<and>
   dailyStats (tasks (fst (snd (checkAndResetDailyTasks idle_server zone_utc (at_day 20000 (hours 10))
     (mirrored [] [example_task ''a'' True True (Some (at_day 19999 (hours 9))) 1,
                   example_task ''b'' True True (Some (at_day 20000 (hours 9))) 2,
                   example_task ''c'' True False (Some (at_day 19999 (hours 9))) 3] []))))) =
     \<lparr>total = 3, completed = 2, missed = 1, percentage = 67\<rparr>"
proof -
  have after: "tasks (fst (snd (checkAndResetDailyTasks idle_server zone_utc (at_day 20000 (hours 10))
     (mirrored [] [example_task ''a'' True True (Some (at_day 19999 (hours 9))) 1,
                   example_task ''b'' True True (Some (at_day 20000 (hours 9))) 2,
                   example_task ''c'' True False (Some (at_day 19999 (hours 9))) 3] [])))) =
     [example_task ''a'' False True (Some (at_day 19999 (hours 9))) 1,
      example_task ''b'' True True (Some (at_day 20000 (hours 9))) 2,
      example_task ''c'' True False (Some (at_day 19999 (hours 9))) 3]"
    by (simp add: scenario_defs rollover_defs)
  show ?thesis
    by (simp only: after)
       (simp add: dailyStats_def example_task_def js_percentage_2_of_3 js_percentage_3_of_3
          flip: numeral_2_eq_2 numeral_3_eq_3)
qed

section \<open>The earlier provider: its daily reset\<close>

lemma storage_no_fault: "True \<notin> set (storage_faults dv) \<Longrightarrow> \<not> storage_call_fails dv"
  by (cases "storage_faults dv") (auto simp add: storage_call_fails_def)

lemma checkDailyReset_success:
  assumes "True \<notin> set (storage_faults dv)"
  shows "checkDailyReset tz now dv =
     (if lastResetDate dv \<noteq> Some (toDateString tz now)
      then dv\<lparr>device_tasks :=
                map (\<lambda>task. if isDaily task
                             then task\<lparr>isCompleted := False, lastCompletedDate := Some now\<rparr>
                             else task)
                    (device_tasks dv),
              stored_tasks :=
                Some (map (\<lambda>task. if isDaily task
                                   then task\<lparr>isCompleted := False, lastCompletedDate := Some now\<rparr>
                                   else task)
                          (device_tasks dv)),
              lastResetDate := Some (toDateString tz now),
              storage_faults := tl (tl (tl (storage_faults dv)))\<rparr>
      else dv\<lparr>storage_faults := tl (storage_faults dv)\<rparr>)"
proof -
  have 1: "True \<notin> set (tl (storage_faults dv))" and 2: "True \<notin> set (tl (tl (storage_faults dv)))"
    using assms by (simp_all add: no_fault_tl)
  show ?thesis
    using assms 1 2 by (simp add: checkDailyReset_def Let_def storage_no_fault)
qed

text \<open>
  With the storage working, a second check on the same local date changes nothing but
  the record of the storage calls: the guard on \<open>lastResetDate\<close> holds it back.
\<close>

lemma checkDailyReset_second_run:
  assumes "True \<notin> set (storage_faults dv)"
    and "toDateString tz now2 = toDateString tz now1"
  shows "device_tasks (checkDailyReset tz now2 (checkDailyReset tz now1 dv)) =
           device_tasks (checkDailyReset tz now1 dv) \<and>
         stored_tasks (checkDailyReset tz now2 (checkDailyReset tz now1 dv)) =
           stored_tasks (checkDailyReset tz now1 dv) \<and>
         lastResetDate (checkDailyReset tz now2 (checkDailyReset tz now1 dv)) =
           lastResetDate (checkDailyReset tz now1 dv)"
proof -
  have nf: "True \<notin> set (storage_faults (checkDailyReset tz now1 dv))"
    using assms(1) by (simp add: checkDailyReset_success no_fault_tl)
  have "lastResetDate (checkDailyReset tz now1 dv) = Some (toDateString tz now1)"
    using assms(1) by (simp add: checkDailyReset_success)
  then show ?thesis
    using assms(2) by (simp add: checkDailyReset_success [OF nf])
qed

lemma checkDailyReset_keeps_non_daily:
  assumes "i < length (device_tasks dv)" and "\<not> isDaily (device_tasks dv ! i)"
  shows "device_tasks (checkDailyReset tz now dv) ! i = device_tasks dv ! i"
  using assms by (simp add: checkDailyReset_def Let_def)

section \<open>Rollover Engine: the claims\<close>

text \<open>
  C1. The claim: two rollover checks in succession on the same calendar date leave the
  same categories and tasks after the second as after the first. The check selects
  stale tasks by the local date but resets, on the backend, the rows dated before the
  UTC date. Seven hours behind UTC, a task completed at 18:00 of the day before (01:00
  UTC of day 20000) is selected all day long; the check at 16:00 local time (23:00 UTC,
  day 20000) resets nothing, the check at 18:00 local time of the same day (01:00 UTC,
  day 20001) resets it. Every call succeeds and the server-side function does nothing.
\<close>

theorem second_rollover_same_local_day_changes_store:
  "toDateString zone_west (at_day 20000 (hours 23)) =
     toDateString zone_west (at_day 20001 (hours 1)) \<and>
   tasks (fst (snd (checkAndResetDailyTasks idle_server zone_west (at_day 20000 (hours 23))
                      (mirrored [] [evening_task] [])))) = [evening_task] \<and>
   tasks (fst (snd (checkAndResetDailyTasks idle_server zone_west (at_day 20001 (hours 1))
                      (snd (checkAndResetDailyTasks idle_server zone_west (at_day 20000 (hours 23))
                              (mirrored [] [evening_task] [])))))) =
     [evening_task\<lparr>isCompleted := False\<rparr>]"
  by (simp add: scenario_defs rollover_defs)

text \<open>
  C2. The claim: a daily task that is completed and whose last completion falls on a
  local calendar date before today is not completed after one check. Seven hours
  behind UTC, the task completed at 18:00 of the day before is stale at 10:00 local
  time (17:00 UTC): the check selects it and sends the update, but the update's filter
  compares with the UTC date, which the completion (01:00 UTC of the same UTC day) does
  not precede, and the reloaded task is still completed. All four calls succeed; the
  server-side function, called last, is arbitrary.
\<close>

theorem stale_task_west_of_utc_stays_completed:
  "toDateString zone_west (at_day 20000 (hours 1)) <
     toDateString zone_west (at_day 20000 (hours 17)) \<and>
   isDaily evening_task \<and> isCompleted evening_task \<and>
   tasksToReset zone_west (at_day 20000 (hours 17)) [evening_task] = [evening_task] \<and>
   fst (checkAndResetDailyTasks srv zone_west (at_day 20000 (hours 17))
          (mirrored [] [evening_task] [])) = Resolved \<and>
   fst (snd (checkAndResetDailyTasks srv zone_west (at_day 20000 (hours 17))
               (mirrored [] [evening_task] []))) = fst (mirrored [] [evening_task] []) \<and>
   requests (snd (snd (checkAndResetDailyTasks srv zone_west (at_day 20000 (hours 17))
                         (mirrored [] [evening_task] [])))) = 4"
  by (simp add: scenario_defs rollover_defs)

text \<open>
  C3. The claim: the check changes neither \<open>isCompleted\<close> nor \<open>lastCompletedDate\<close> of a
  task that is not daily, nor of a daily task last completed today. The first half
  holds (\<open>rollover_keeps_non_daily\<close>). Five hours ahead of UTC, a daily task completed
  at 01:00 today (20:00 UTC of the day before) is not selected by the check at 09:00,
  but one other stale daily task makes the check send its update, whose filter, on the
  UTC date, matches the task completed today: it comes back not completed.
\<close>

theorem task_completed_today_east_of_utc_is_reset:
  "toDateString zone_east (at_day 19999 (hours 20)) =
     toDateString zone_east (at_day 20000 (hours 4)) \<and>
   tasksToReset zone_east (at_day 20000 (hours 4)) [pending_task, night_task] = [pending_task] \<and>
   tasks (fst (snd (checkAndResetDailyTasks srv zone_east (at_day 20000 (hours 4))
                      (mirrored [] [pending_task, night_task] [])))) =
     [pending_task, night_task\<lparr>isCompleted := False\<rparr>]"
  by (simp add: scenario_defs rollover_defs)

text \<open>
  C4, as amended. A daily task that is completed and has no last completion date is
  skipped by the check: the selection of stale tasks requires a date, the remote
  update matches no row without one, and, the store holding the user's rows as the
  backend has them, the task is after the check exactly what it was before.
\<close>

theorem rollover_skips_undated_tasks:
  assumes "userId st = Some u" and "tasks st = fst (select_tasks u (data be))"
  shows "length (tasks (fst (snd (checkAndResetDailyTasks srv tz now (st, be))))) =
           length (tasks st) \<and>
         (\<forall>i < length (tasks st).
            lastCompletedDate (tasks st ! i) = None \<longrightarrow>
              tasks st ! i \<notin> set (tasksToReset tz now (tasks st)) \<and>
              tasks (fst (snd (checkAndResetDailyTasks srv tz now (st, be)))) ! i = tasks st ! i)"
  using rollover_tasks [OF assms, of srv tz now]
  by (auto simp add: reset_row_undated dest: tasksToReset_dated)

theorem rollover_skips_undated_tasks_witness:
  "userId (fst (mirrored [] [undated_task, old_task] [])) = Some ''u1'' \<and>
   tasks (fst (mirrored [] [undated_task, old_task] [])) =
     fst (select_tasks ''u1'' (data (snd (mirrored [] [undated_task, old_task] [])))) \<and>
   (0::nat) < length (tasks (fst (mirrored [] [undated_task, old_task] []))) \<and>
   lastCompletedDate (tasks (fst (mirrored [] [undated_task, old_task] [])) ! 0) = None \<and>
   isCompleted (tasks (fst (snd (checkAndResetDailyTasks idle_server zone_utc
                                   (at_day 20000 (hours 10))
                                   (mirrored [] [undated_task, old_task] [])))) ! 0)"
proof -
  let ?w = "mirrored [] [undated_task, old_task] []"
  have u: "userId (fst ?w) = Some ''u1''"
    by (simp add: mirrored_def)
  have m: "tasks (fst ?w) = fst (select_tasks ''u1'' (data (snd ?w)))"
    by (simp add: scenario_defs select_tasks_def)
  have t: "tasks (fst ?w) ! 0 = undated_task" "0 < length (tasks (fst ?w))"
    by (simp_all add: mirrored_def)
  from rollover_skips_undated_tasks [OF u m, of idle_server zone_utc "at_day 20000 (hours 10)"]
  have "tasks (fst (snd (checkAndResetDailyTasks idle_server zone_utc (at_day 20000 (hours 10))
          (fst ?w, snd ?w)))) ! 0 = tasks (fst ?w) ! 0"
    using t by (simp add: undated_task_def example_task_def)
  then show ?thesis
    using u m t by (simp add: undated_task_def example_task_def)
qed

text \<open>
  The claim C4 as it stands fails: with every call succeeding and another stale task
  making the check send its update, the completed daily task without a date is still
  completed afterwards, while the dated one is reset.
\<close>

theorem undated_completed_task_is_not_reset:
  "isDaily undated_task \<and> isCompleted undated_task \<and> lastCompletedDate undated_task = None \<and>
   (\<forall>srv. tasks (fst (snd (checkAndResetDailyTasks srv zone_utc (at_day 20000 (hours 10))
                             (mirrored [] [undated_task, old_task] [])))) =
            [undated_task, old_task\<lparr>isCompleted := False\<rparr>])"
  by (simp add: scenario_defs rollover_defs)

section \<open>Reordering categories\<close>

lemma send_order_updates_data:
  "True \<notin> set (faults be) \<Longrightarrow>
   data (send_order_updates cs k be) = (data be)\<lparr>cat_rows := renumber cs k (cat_rows (data be))\<rparr>"
proof (induction cs arbitrary: k be)
  case Nil
  then show ?case by simp
next
  case (Cons c cs)
  let ?be1 = "snd (remote_call (update_order_index (cat_id c) (int k)) be)"
  have call: "?be1 = be\<lparr>faults := tl (faults be), requests := Suc (requests be),
                 data := snd (update_order_index (cat_id c) (int k) (data be))\<rparr>"
    using Cons.prems by (simp add: remote_call_ok no_fault_next)
  have "True \<notin> set (faults ?be1)"
    using Cons.prems by (simp add: call no_fault_tl)
  then have "data (send_order_updates cs (Suc k) ?be1) =
        (data ?be1)\<lparr>cat_rows := renumber cs (Suc k) (cat_rows (data ?be1))\<rparr>"
    by (rule Cons.IH)
  then show ?case
    by (simp add: call update_order_index_def)
qed

lemma find_after_update:
  "find (\<lambda>c. cat_id c = i) (map (\<lambda>c. if cat_id c = j then c\<lparr>orderIndex := v\<rparr> else c) rows) =
   map_option (\<lambda>c. if i = j then c\<lparr>orderIndex := v\<rparr> else c) (find (\<lambda>c. cat_id c = i) rows)"
  by (induction rows) auto

lemma renumber_other:
  "i \<notin> set (map cat_id cs) \<Longrightarrow>
   find (\<lambda>c. cat_id c = i) (renumber cs k rows) = find (\<lambda>c. cat_id c = i) rows"
proof (induction cs arbitrary: k rows)
  case Nil
  then show ?case by simp
next
  case (Cons c cs)
  then have "i \<noteq> cat_id c" and "i \<notin> set (map cat_id cs)"
    by auto
  then show ?case
    using Cons.IH [of "Suc k"] by (simp add: find_after_update option.map_ident)
qed

lemma renumber_position:
  "distinct (map cat_id cs) \<Longrightarrow> n < length cs \<Longrightarrow>
   find (\<lambda>c. cat_id c = cat_id (cs ! n)) rows = Some r \<Longrightarrow>
   find (\<lambda>c. cat_id c = cat_id (cs ! n)) (renumber cs k rows) =
     Some (r\<lparr>orderIndex := int (k + n)\<rparr>)"
proof (induction cs arbitrary: k rows n r)
  case Nil
  then show ?case by simp
next
  case (Cons c cs)
  show ?case
  proof (cases n)
    case 0
    have "cat_id c \<notin> set (map cat_id cs)"
      using Cons.prems(1) by simp
    then show ?thesis
      using Cons.prems(3) 0 by (simp add: renumber_other find_after_update)
  next
    case (Suc m)
    then have m: "m < length cs" and d: "distinct (map cat_id cs)"
      using Cons.prems by auto
    have "cat_id (cs ! m) \<in> set (map cat_id cs)"
      using m by simp
    then have ne: "cat_id (cs ! m) \<noteq> cat_id c"
      using Cons.prems(1) by auto
    have "find (\<lambda>x. cat_id x = cat_id (cs ! m))
            (map (\<lambda>x. if cat_id x = cat_id c then x\<lparr>orderIndex := int k\<rparr> else x) rows) = Some r"
      using Cons.prems(3) Suc ne by (simp add: find_after_update)
    from Cons.IH [OF d m this, of "Suc k"] show ?thesis
      using Suc by simp
  qed
qed

lemma find_present:
  "i \<in> set (map cat_id rows) \<Longrightarrow> \<exists>r. find (\<lambda>c. cat_id c = i) rows = Some r"
  by (induction rows) auto

text \<open>
  When every update succeeds: after \<open>reorderCategories\<close> on a sequence of the user's
  stored categories without repetition, the backend holds for the category at position
  \<open>n\<close> the order index \<open>n\<close>, whatever the indices were before; these indices are
  pairwise different; the store holds the given sequence.
\<close>

lemma reorderCategories_stores_positions:
  assumes "truthy (userId st)" and "True \<notin> set (faults be)"
    and "distinct (map cat_id cs)"
    and "set (map cat_id cs) \<subseteq> set (map cat_id (cat_rows (data be)))"
  shows "fst (reorderCategories cs (st, be)) = Resolved \<and>
         categories (fst (snd (reorderCategories cs (st, be)))) = cs \<and>
         map (stored_index (data (snd (snd (reorderCategories cs (st, be)))))) (map cat_id cs) =
           map (\<lambda>n. Some (int n)) [0..<length cs] \<and>
         distinct (map (stored_index (data (snd (snd (reorderCategories cs (st, be))))))
                       (map cat_id cs))"
proof -
  let ?d = "data (snd (snd (reorderCategories cs (st, be))))"
  have rows: "cat_rows ?d = renumber cs 0 (cat_rows (data be))"
    using assms(1,2) by (simp add: reorderCategories_def send_order_updates_data)
  have at: "stored_index ?d (cat_id (cs ! n)) = Some (int n)" if "n < length cs" for n
  proof -
    have "cat_id (cs ! n) \<in> set (map cat_id (cat_rows (data be)))"
      using assms(4) that by auto
    then obtain r where "find (\<lambda>c. cat_id c = cat_id (cs ! n)) (cat_rows (data be)) = Some r"
      using find_present by blast
    from renumber_position [OF assms(3) that this, of 0] show ?thesis
      by (simp add: stored_index_def rows)
  qed
  have eq: "map (stored_index ?d) (map cat_id cs) = map (\<lambda>n. Some (int n)) [0..<length cs]"
    by (rule nth_equalityI) (simp_all add: at)
  have "distinct (map (\<lambda>n. Some (int n)) [0..<length cs])"
    by (simp add: distinct_map inj_on_def)
  then show ?thesis
    using assms(1) eq by (simp add: reorderCategories_def)
qed

lemma reorderCategories_stores_positions_example:
  "truthy (userId (fst (mirrored [example_category ''c1'' 0, example_category ''c2'' 1,
                                  example_category ''c3'' 2] [] []))) \<and>
   True \<notin> set (faults (snd (mirrored [example_category ''c1'' 0, example_category ''c2'' 1,
                                      example_category ''c3'' 2] [] []))) \<and>
   distinct (map cat_id [example_category ''c2'' 1, example_category ''c1'' 0,
                         example_category ''c3'' 2]) \<and>
   set (map cat_id [example_category ''c2'' 1, example_category ''c1'' 0,
                    example_category ''c3'' 2]) \<subseteq>
     set (map cat_id (cat_rows (data (snd (mirrored [example_category ''c1'' 0,
                        example_category ''c2'' 1, example_category ''c3'' 2] [] []))))) \<and>
   fst (reorderCategories
          [example_category ''c2'' 1, example_category ''c1'' 0, example_category ''c3'' 2]
          (mirrored [example_category ''c1'' 0, example_category ''c2'' 1,
                     example_category ''c3'' 2] [] [])) = Resolved \<and>
   map (stored_index (data (snd (snd (reorderCategories
          [example_category ''c2'' 1, example_category ''c1'' 0, example_category ''c3'' 2]
          (mirrored [example_category ''c1'' 0, example_category ''c2'' 1,
                     example_category ''c3'' 2] [] []))))))
       [''c2'', ''c1'', ''c3''] = [Some 0, Some 1, Some 2]"
  using reorderCategories_stores_positions
    [where st = "fst (mirrored [example_category ''c1'' 0, example_category ''c2'' 1,
                                example_category ''c3'' 2] [] [])"
       and be = "snd (mirrored [example_category ''c1'' 0, example_category ''c2'' 1,
                                example_category ''c3'' 2] [] [])"
       and cs = "[example_category ''c2'' 1, example_category ''c1'' 0, example_category ''c3'' 2]"]
  by (simp add: scenario_defs)

text \<open>
  The same from the store's side: when the given sequence is all of the user's
  categories and the identifiers of the rows are unique, a load after the reordering
  brings the categories back in the given order, numbered from 0.
\<close>

lemma renumber_length [simp]: "length (renumber cs k rows) = length rows"
  by (induction cs arbitrary: k rows) simp_all

lemma renumber_keeps_id:
  "i < length rows \<Longrightarrow>
   cat_id (renumber cs k rows ! i) = cat_id (rows ! i) \<and>
   cat_userId (renumber cs k rows ! i) = cat_userId (rows ! i)"
  by (induction cs arbitrary: k rows) simp_all

lemma renumber_other_row:
  "i < length rows \<Longrightarrow> cat_id (rows ! i) \<notin> set (map cat_id cs) \<Longrightarrow>
   renumber cs k rows ! i = rows ! i"
  by (induction cs arbitrary: k rows) simp_all

lemma renumber_row:
  "distinct (map cat_id cs) \<Longrightarrow> n < length cs \<Longrightarrow> i < length rows \<Longrightarrow>
   cat_id (rows ! i) = cat_id (cs ! n) \<Longrightarrow>
   orderIndex (renumber cs k rows ! i) = int (k + n)"
proof (induction cs arbitrary: k rows n)
  case Nil
  then show ?case by simp
next
  case (Cons c cs)
  let ?rows1 = "map (\<lambda>x. if cat_id x = cat_id c then x\<lparr>orderIndex := int k\<rparr> else x) rows"
  have i1: "i < length ?rows1"
    using Cons.prems(3) by simp
  show ?case
  proof (cases n)
    case 0
    have "cat_id (?rows1 ! i) \<notin> set (map cat_id cs)"
      using Cons.prems(1,3,4) 0 by simp
    from renumber_other_row [OF i1 this, of "Suc k"] show ?thesis
      using Cons.prems(3,4) 0 by simp
  next
    case (Suc m)
    then have m: "m < length cs" and d: "distinct (map cat_id cs)"
      using Cons.prems by auto
    have "cat_id (cs ! m) \<in> set (map cat_id cs)"
      using m by simp
    then have ne: "cat_id (cs ! m) \<noteq> cat_id c"
      using Cons.prems(1) by auto
    have "cat_id (?rows1 ! i) = cat_id (cs ! m)"
      using Cons.prems(3,4) Suc by simp
    from Cons.IH [OF d m i1 this, of "Suc k"] show ?thesis
      using Suc by simp
  qed
qed

lemma renumber_user_ids:
  "map cat_id (filter (\<lambda>c. cat_userId c = u) (renumber cs k rows)) =
   map cat_id (filter (\<lambda>c. cat_userId c = u) rows)"
proof (induction cs arbitrary: k rows)
  case Nil
  then show ?case by simp
next
  case (Cons c cs)
  let ?upd = "\<lambda>x. if cat_id x = cat_id c then x\<lparr>orderIndex := int k\<rparr> else x"
  have "filter (\<lambda>c. cat_userId c = u) (map ?upd rows) = map ?upd (filter (\<lambda>c. cat_userId c = u) rows)"
    by (induction rows) simp_all
  moreover have "map cat_id (map ?upd xs) = map cat_id xs" for xs
    by (induction xs) simp_all
  ultimately show ?case
    using Cons.IH [of "Suc k" "map ?upd rows"] by simp
qed

lemma reload_after_reorder:
  assumes dcs: "distinct (map cat_id cs)" and drows: "distinct (map cat_id rows)"
    and own: "set (map cat_id (filter (\<lambda>c. cat_userId c = u) rows)) = set (map cat_id cs)"
  shows "map orderIndex (sort_key orderIndex (filter (\<lambda>c. cat_userId c = u) (renumber cs 0 rows))) =
           map int [0..<length cs] \<and>
         map cat_id (sort_key orderIndex (filter (\<lambda>c. cat_userId c = u) (renumber cs 0 rows))) =
           map cat_id cs"
proof -
  let ?ys = "filter (\<lambda>c. cat_userId c = u) (renumber cs 0 rows)"
  let ?zs = "sort_key orderIndex ?ys"
  have ids: "map cat_id ?ys = map cat_id (filter (\<lambda>c. cat_userId c = u) rows)"
    by (rule renumber_user_ids)
  have placed: "\<exists>n < length cs. cat_id y = cat_id (cs ! n) \<and> orderIndex y = int n"
    if "y \<in> set ?ys" for y
  proof -
    from that obtain i where i: "i < length rows" and y: "y = renumber cs 0 rows ! i"
      by (auto simp add: in_set_conv_nth)
    have "cat_id y \<in> set (map cat_id ?ys)"
      using that by simp
    then have "cat_id y \<in> set (map cat_id cs)"
      using ids own by simp
    then obtain n where n: "n < length cs" and "cat_id (cs ! n) = cat_id y"
      by (auto simp add: in_set_conv_nth)
    then have "cat_id (rows ! i) = cat_id (cs ! n)"
      using renumber_keeps_id [OF i, of cs 0] y by simp
    from renumber_row [OF dcs n i this, of 0] have "orderIndex y = int n"
      using y by simp
    with n \<open>cat_id (cs ! n) = cat_id y\<close> show ?thesis
      by auto
  qed
  have same: "n = m" if "n < length cs" "m < length cs" "cat_id (cs ! n) = cat_id (cs ! m)" for n m
    using that dcs by (auto simp add: distinct_conv_nth)
  have dys: "distinct (map cat_id ?ys)"
    using drows by (simp add: ids distinct_map_filter)
  have inj: "inj_on orderIndex (set ?ys)"
  proof (rule inj_onI)
    fix a b
    assume a: "a \<in> set ?ys" and b: "b \<in> set ?ys" and eq: "orderIndex a = orderIndex b"
    from placed [OF a] placed [OF b] eq have ab: "cat_id a = cat_id b"
      by auto
    have "inj_on cat_id (set ?ys)"
      using dys by (simp add: distinct_map)
    from inj_onD [OF this ab a b] show "a = b" .
  qed
  have dist: "distinct (map orderIndex ?zs)"
  proof -
    have "distinct ?ys"
      using dys by (simp add: distinct_map)
    then show ?thesis
      using inj by (simp add: distinct_map)
  qed
  have set_eq: "set (map orderIndex ?zs) = set (map int [0..<length cs])"
  proof
    show "set (map orderIndex ?zs) \<subseteq> set (map int [0..<length cs])"
    proof
      fix x
      assume "x \<in> set (map orderIndex ?zs)"
      then obtain y where y: "y \<in> set ?ys" and x: "x = orderIndex y"
        by auto
      from placed [OF y] obtain n where "n < length cs" and "orderIndex y = int n"
        by auto
      then show "x \<in> set (map int [0..<length cs])"
        using x by simp
    qed
  next
    show "set (map int [0..<length cs]) \<subseteq> set (map orderIndex ?zs)"
    proof
      fix x
      assume "x \<in> set (map int [0..<length cs])"
      then obtain n where n: "n < length cs" and x: "x = int n"
        by auto
      have "cat_id (cs ! n) \<in> set (map cat_id ?ys)"
        using n ids own by simp
      then obtain y where y: "y \<in> set ?ys" and "cat_id y = cat_id (cs ! n)"
        by auto
      from placed [OF y] obtain m where m: "m < length cs"
        and "cat_id y = cat_id (cs ! m)" and om: "orderIndex y = int m"
        by auto
      with \<open>cat_id y = cat_id (cs ! n)\<close> have "m = n"
        using same [OF m n] by simp
      have "orderIndex y \<in> orderIndex ` set ?ys"
        using y by (rule imageI)
      then show "x \<in> set (map orderIndex ?zs)"
        using x om \<open>m = n\<close> by simp
    qed
  qed
  have "sorted (map orderIndex ?zs)"
    by (rule sorted_sort_key)
  moreover have "sorted (map int [0..<length cs])"
    by (simp add: sorted_map)
  moreover have "distinct (map int [0..<length cs])"
    by (simp add: distinct_map inj_on_def)
  ultimately have idx: "map orderIndex ?zs = map int [0..<length cs]"
    using dist set_eq by (intro sorted_distinct_set_unique)
  have len: "length ?zs = length cs"
    using arg_cong [OF idx, of length] by simp
  have "map cat_id ?zs = map cat_id cs"
  proof (rule nth_equalityI)
    show "length (map cat_id ?zs) = length (map cat_id cs)"
      using len by simp
  next
    fix j
    assume "j < length (map cat_id ?zs)"
    then have j: "j < length cs"
      using len by (simp only: length_map)
    have "j < length ?zs"
      using j len by (simp only:)
    then have "?zs ! j \<in> set ?zs"
      by (rule nth_mem)
    then have "?zs ! j \<in> set ?ys"
      by (simp only: set_sort)
    from placed [OF this] obtain m where m: "m < length cs"
      and cm: "cat_id (?zs ! j) = cat_id (cs ! m)" and om: "orderIndex (?zs ! j) = int m"
      by auto
    have "map orderIndex ?zs ! j = map int [0..<length cs] ! j"
      using idx by simp
    then have "orderIndex (?zs ! j) = int j"
      using j len by simp
    then have "m = j"
      using om by simp
    then show "map cat_id ?zs ! j = map cat_id cs ! j"
      using cm j len by simp
  qed
  with idx show ?thesis
    by simp
qed

lemma send_order_updates_no_fault:
  "True \<notin> set (faults be) \<Longrightarrow> True \<notin> set (faults (send_order_updates cs k be))"
proof (induction cs arbitrary: k be)
  case Nil
  then show ?case by simp
next
  case (Cons c cs)
  have "True \<notin> set (faults (snd (remote_call (update_order_index (cat_id c) (int k)) be)))"
    using Cons.prems by (simp add: remote_call_ok no_fault_next no_fault_tl)
  then show ?case
    using Cons.IH by simp
qed

lemma reload_after_reorderCategories:
  assumes "userId st = Some u" and "u \<noteq> []" and "True \<notin> set (faults be)"
    and "distinct (map cat_id cs)" and "distinct (map cat_id (cat_rows (data be)))"
    and "set (map cat_id (filter (\<lambda>c. cat_userId c = u) (cat_rows (data be)))) = set (map cat_id cs)"
  shows "map cat_id (categories (fst (snd (loadData None (snd (reorderCategories cs (st, be)))))))
           = map cat_id cs \<and>
         map orderIndex (categories (fst (snd (loadData None (snd (reorderCategories cs (st, be)))))))
           = map int [0..<length cs]"
proof -
  let ?st1 = "st\<lparr>categories := cs\<rparr>"
  let ?be1 = "send_order_updates cs 0 be"
  have 1: "snd (reorderCategories cs (st, be)) = (?st1, ?be1)"
    using assms(1,2) by (simp add: reorderCategories_def truthy_def)
  have u1: "userId ?st1 = Some u"
    using assms(1) by simp
  have nf: "True \<notin> set (faults ?be1)"
    using assms(3) by (rule send_order_updates_no_fault)
  have rows: "cat_rows (data ?be1) = renumber cs 0 (cat_rows (data be))"
    using assms(3) by (simp add: send_order_updates_data)
  have "categories (fst (snd (loadData None (?st1, ?be1)))) =
        sort_key orderIndex (filter (\<lambda>c. cat_userId c = u) (renumber cs 0 (cat_rows (data be))))"
    by (simp add: loadData_success [OF u1 assms(2) nf] select_categories_def rows)
  then show ?thesis
    using reload_after_reorder [OF assms(4,5,6)] by (simp only: 1)
qed

text \<open>
  C7. The claim: after \<open>reorderCategories\<close> completes on a permutation of the user's
  categories, the stored order indices are 0, 1, 2, ... by position in the given
  sequence, and they are unique. \<open>reorderCategories\<close> does not look at the results of
  its updates, so it completes whether they succeeded or not. The user has \<open>c1\<close> with
  index 0 and \<open>c2\<close> with index 1 and asks for the order \<open>c2\<close>, \<open>c1\<close>; the first update
  (\<open>c2\<close> to 0) fails, the second (\<open>c1\<close> to 1) succeeds. The operation resolves and puts
  the new sequence into the store, while the backend holds index 1 for both
  categories: neither 0, 1 by position nor unique.
\<close>

theorem reorderCategories_failed_update_unnoticed:
  "userId (fst (mirrored [example_category ''c1'' 0, example_category ''c2'' 1] [] [True])) =
     Some ''u1'' \<and>
   map cat_id (cat_rows (data (snd (mirrored [example_category ''c1'' 0,
                                                example_category ''c2'' 1] [] [True])))) =
     [''c1'', ''c2''] \<and>
   faults (snd (mirrored [example_category ''c1'' 0, example_category ''c2'' 1] [] [True])) =
     [True] \<and>
   fst (reorderCategories [example_category ''c2'' 1, example_category ''c1'' 0]
          (mirrored [example_category ''c1'' 0, example_category ''c2'' 1] [] [True])) = Resolved \<and>
   categories (fst (snd (reorderCategories [example_category ''c2'' 1, example_category ''c1'' 0]
          (mirrored [example_category ''c1'' 0, example_category ''c2'' 1] [] [True])))) =
     [example_category ''c2'' 1, example_category ''c1'' 0] \<and>
   requests (snd (snd (reorderCategories [example_category ''c2'' 1, example_category ''c1'' 0]
          (mirrored [example_category ''c1'' 0, example_category ''c2'' 1] [] [True])))) = 2 \<and>
   map (stored_index (data (snd (snd (reorderCategories
          [example_category ''c2'' 1, example_category ''c1'' 0]
          (mirrored [example_category ''c1'' 0, example_category ''c2'' 1] [] [True]))))))
       [''c2'', ''c1''] = [Some 1, Some 1] \<and>
   \<not> distinct (map (stored_index (data (snd (snd (reorderCategories
          [example_category ''c2'' 1, example_category ''c1'' 0]
          (mirrored [example_category ''c1'' 0, example_category ''c2'' 1] [] [True]))))))
       [''c2'', ''c1''])"
  by (simp add: scenario_defs reorderCategories_def remote_call_def update_order_index_def
      stored_index_def Let_def)

section \<open>Failures of remote calls\<close>

text \<open>
  C8, as amended. When the remote write of \<open>addCategory\<close>, \<open>addTask\<close>, \<open>updateTask\<close>,
  \<open>toggleTask\<close>, \<open>deleteTask\<close> or \<open>deleteCategory\<close> fails, the store is exactly what it
  was and the operation rejects with the error. When the remote update of the rollover
  check fails, the store is exactly what it was as well (no reset is kept locally), but
  the failure is logged and swallowed: the check resolves.
\<close>

theorem failed_write_leaves_store:
  assumes "truthy (userId st)" and "next_call_fails be"
  shows "fst (addCategory new_id created title (st, be)) = Rejected NetworkOrBackendError \<and>
         fst (snd (addCategory new_id created title (st, be))) = st \<and>
         fst (addTask new_id created catId title daily (st, be)) = Rejected NetworkOrBackendError \<and>
         fst (snd (addTask new_id created catId title daily (st, be))) = st \<and>
         fst (updateTask taskId title (st, be)) = Rejected NetworkOrBackendError \<and>
         fst (snd (updateTask taskId title (st, be))) = st \<and>
         (find (\<lambda>t. task_id t = taskId) (tasks st) \<noteq> None \<longrightarrow>
            fst (toggleTask srv now taskId (st, be)) = Rejected NetworkOrBackendError \<and>
            fst (snd (toggleTask srv now taskId (st, be))) = st) \<and>
         fst (deleteTask srv taskId (st, be)) = Rejected NetworkOrBackendError \<and>
         fst (snd (deleteTask srv taskId (st, be))) = st \<and>
         fst (deleteCategory srv catId (st, be)) = Rejected NetworkOrBackendError \<and>
         fst (snd (deleteCategory srv catId (st, be))) = st \<and>
         (tasksToReset tz now (tasks st) \<noteq> [] \<longrightarrow>
            fst (checkAndResetDailyTasks srv tz now (st, be)) = Resolved \<and>
            fst (snd (checkAndResetDailyTasks srv tz now (st, be))) = st)"
  using assms
  by (auto simp add: addCategory_def addTask_def updateTask_def toggleTask_def deleteTask_def
      deleteCategory_def checkAndResetDailyTasks_def remote_call_fail truthy_def Let_def
      split: option.splits)

theorem failed_write_leaves_store_witness:
  "truthy (userId (fst (mirrored [example_category ''c1'' 0] [old_task] [True]))) \<and>
   next_call_fails (snd (mirrored [example_category ''c1'' 0] [old_task] [True])) \<and>
   find (\<lambda>t. task_id t = ''b'') (tasks (fst (mirrored [example_category ''c1'' 0] [old_task] [True])))
     \<noteq> None \<and>
   tasksToReset zone_utc (at_day 20000 (hours 10))
     (tasks (fst (mirrored [example_category ''c1'' 0] [old_task] [True]))) \<noteq> [] \<and>
   fst (toggleTask idle_server (at_day 20000 (hours 10)) ''b''
          (mirrored [example_category ''c1'' 0] [old_task] [True]))
     = Rejected NetworkOrBackendError \<and>
   tasks (fst (snd (toggleTask idle_server (at_day 20000 (hours 10)) ''b''
          (mirrored [example_category ''c1'' 0] [old_task] [True])))) = [old_task] \<and>
   fst (addCategory ''n'' 1 ''title'' (mirrored [example_category ''c1'' 0] [old_task] [True]))
     = Rejected NetworkOrBackendError \<and>
   tasks (fst (snd (checkAndResetDailyTasks idle_server zone_utc (at_day 20000 (hours 10))
          (mirrored [example_category ''c1'' 0] [old_task] [True])))) = [old_task]"
  using failed_write_leaves_store
    [where st = "fst (mirrored [example_category ''c1'' 0] [old_task] [True])"
       and be = "snd (mirrored [example_category ''c1'' 0] [old_task] [True])"
       and taskId = "''b''" and catId = "''c1''" and srv = idle_server
       and now = "at_day 20000 (hours 10)" and tz = zone_utc and new_id = "''n''" and created = 1
       and title = "''title''" and daily = True]
  by (simp add: scenario_defs tasksToReset_def toDateString_def msPerDay_def)

text \<open>
  The claim C8 as it stands fails: a rollover check whose remote update fails does not
  surface the failure. The check has a stale task, issues its one call, which fails,
  and resolves.
\<close>

theorem rollover_failure_is_not_surfaced:
  "next_call_fails (snd (mirrored [] [old_task] [True])) \<and>
   tasksToReset zone_utc (at_day 20000 (hours 10)) (tasks (fst (mirrored [] [old_task] [True])))
     = [old_task] \<and>
   (\<forall>srv. fst (checkAndResetDailyTasks srv zone_utc (at_day 20000 (hours 10))
                 (mirrored [] [old_task] [True])) = Resolved \<and>
          requests (snd (snd (checkAndResetDailyTasks srv zone_utc (at_day 20000 (hours 10))
                 (mirrored [] [old_task] [True])))) = 1)"
  by (simp add: scenario_defs rollover_defs)

text \<open>
  C9. A failure of \<open>saveDailyAnalytics\<close> never fails the mutation that triggered it:
  when the remote write of \<open>toggleTask\<close>, \<open>deleteTask\<close> or \<open>deleteCategory\<close> succeeds, the
  operation resolves and the store holds the change, whatever becomes of the analytics
  call that follows.
\<close>

theorem analytics_failure_is_swallowed:
  assumes "truthy (userId st)" and "\<not> next_call_fails be"
  shows "(\<forall>task. find (\<lambda>t. task_id t = taskId) (tasks st) = Some task \<longrightarrow>
            fst (toggleTask srv now taskId (st, be)) = Resolved \<and>
            fst (snd (toggleTask srv now taskId (st, be))) =
              st\<lparr>tasks := map (\<lambda>t. if task_id t = taskId
                                      then t\<lparr>isCompleted := \<not> isCompleted task,
                                             lastCompletedDate :=
                                               (if \<not> isCompleted task then Some now
                                                else lastCompletedDate t)\<rparr>
                                      else t) (tasks st)\<rparr>) \<and>
         fst (deleteTask srv taskId (st, be)) = Resolved \<and>
         fst (snd (deleteTask srv taskId (st, be))) =
           st\<lparr>tasks := filter (\<lambda>t. task_id t \<noteq> taskId) (tasks st)\<rparr> \<and>
         fst (deleteCategory srv catId (st, be)) = Resolved \<and>
         fst (snd (deleteCategory srv catId (st, be))) =
           st\<lparr>categories := filter (\<lambda>c. cat_id c \<noteq> catId) (categories st),
              tasks := filter (\<lambda>t. categoryId t \<noteq> catId) (tasks st)\<rparr>"
  using assms
  by (simp add: toggleTask_def deleteTask_def deleteCategory_def remote_call_ok
      saveDailyAnalytics_resolves Let_def)

theorem analytics_failure_is_swallowed_witness:
  "truthy (userId (fst (mirrored [example_category ''c1'' 0] [open_task] [False, True]))) \<and>
   \<not> next_call_fails (snd (mirrored [example_category ''c1'' 0] [open_task] [False, True])) \<and>
   faults (snd (mirrored [example_category ''c1'' 0] [open_task] [False, True])) = [False, True] \<and>
   fst (toggleTask idle_server (at_day 20000 0) ''a''
          (mirrored [example_category ''c1'' 0] [open_task] [False, True])) = Resolved \<and>
   tasks (fst (snd (toggleTask idle_server (at_day 20000 0) ''a''
          (mirrored [example_category ''c1'' 0] [open_task] [False, True])))) =
     [open_task\<lparr>isCompleted := True, lastCompletedDate := Some (at_day 20000 0)\<rparr>] \<and>
   fst (deleteTask idle_server ''a''
          (mirrored [example_category ''c1'' 0] [open_task] [False, True])) = Resolved \<and>
   tasks (fst (snd (deleteTask idle_server ''a''
          (mirrored [example_category ''c1'' 0] [open_task] [False, True])))) = [] \<and>
   fst (deleteCategory idle_server ''c1''
          (mirrored [example_category ''c1'' 0] [open_task] [False, True])) = Resolved \<and>
   categories (fst (snd (deleteCategory idle_server ''c1''
          (mirrored [example_category ''c1'' 0] [open_task] [False, True])))) = []"
  using analytics_failure_is_swallowed
    [where st = "fst (mirrored [example_category ''c1'' 0] [open_task] [False, True])"
       and be = "snd (mirrored [example_category ''c1'' 0] [open_task] [False, True])"
       and taskId = "''a''" and catId = "''c1''" and srv = idle_server and now = "at_day 20000 0"]
  by (simp add: scenario_defs)

section \<open>Nobody signed in\<close>

text \<open>
  C10. With no user signed in, each of \<open>addCategory\<close>, \<open>addTask\<close>, \<open>updateTask\<close>,
  \<open>toggleTask\<close>, \<open>deleteTask\<close>, \<open>deleteCategory\<close>, \<open>reorderCategories\<close>,
  \<open>checkAndResetDailyTasks\<close> and \<open>saveDailyAnalytics\<close> resolves and leaves the store and
  the backend as they were; the backend's call count in particular: no call is issued.
\<close>

theorem signed_out_operations_do_nothing:
  assumes "userId st = None"
  shows "addCategory new_id created title (st, be) = (Resolved, st, be) \<and>
         addTask new_id created catId title daily (st, be) = (Resolved, st, be) \<and>
         updateTask taskId title (st, be) = (Resolved, st, be) \<and>
         toggleTask srv now taskId (st, be) = (Resolved, st, be) \<and>
         deleteTask srv taskId (st, be) = (Resolved, st, be) \<and>
         deleteCategory srv catId (st, be) = (Resolved, st, be) \<and>
         reorderCategories cats (st, be) = (Resolved, st, be) \<and>
         checkAndResetDailyTasks srv tz now (st, be) = (Resolved, st, be) \<and>
         saveDailyAnalytics srv (st, be) = (Resolved, st, be)"
  using assms
  by (simp add: addCategory_def addTask_def updateTask_def toggleTask_def deleteTask_def
      deleteCategory_def reorderCategories_def checkAndResetDailyTasks_def saveDailyAnalytics_def
      not_truthy_None)

theorem signed_out_operations_do_nothing_witness:
  "userId (fst signed_out) = None \<and>
   addCategory ''n'' 1 ''title'' signed_out = (Resolved, signed_out) \<and>
   addTask ''n'' 1 ''c1'' ''title'' True signed_out = (Resolved, signed_out) \<and>
   updateTask ''a'' ''title'' signed_out = (Resolved, signed_out) \<and>
   toggleTask idle_server (at_day 20000 0) ''a'' signed_out = (Resolved, signed_out) \<and>
   deleteTask idle_server ''a'' signed_out = (Resolved, signed_out) \<and>
   deleteCategory idle_server ''c1'' signed_out = (Resolved, signed_out) \<and>
   reorderCategories [example_category ''c1'' 0] signed_out = (Resolved, signed_out) \<and>
   checkAndResetDailyTasks idle_server zone_utc (at_day 20000 0) signed_out =
     (Resolved, signed_out) \<and>
   saveDailyAnalytics idle_server signed_out = (Resolved, signed_out)"
proof -
  have u: "userId (fst signed_out) = None"
    by (simp add: signed_out_def)
  show ?thesis
    using u signed_out_operations_do_nothing
      [OF u, where new_id = "''n''" and created = 1 and title = "''title''"
        and be = "snd signed_out" and catId = "''c1''" and daily = True and taskId = "''a''"
        and srv = idle_server and now = "at_day 20000 0" and cats = "[example_category ''c1'' 0]"
        and tz = zone_utc]
    by simp
qed

end
